theory Spec2Isabelle
  imports Main "HOL-Library.AList"
begin

section \<open>Superstore dashboard: the hierarchical Region / State / City filter\<close>

text \<open>
  The development embeds the filter part of \<^verbatim>\<open>Dashboard.py\<close> (lines 29 to 84),
  together with what the rest of the script does to the same dataframes up to the export
  of line 199: the two column assignments of lines 129 and 179, and the statements
  around them, which read the dataframes and can raise. The script is a sequence of
  assignments of dataframe expressions to the variables \<^verbatim>\<open>df\<close>, \<^verbatim>\<open>df2\<close>,
  \<^verbatim>\<open>df3\<close> and \<^verbatim>\<open>filtered_df\<close>. Each right-hand side
  is embedded as a function on dataframe values; the assignments themselves are embedded
  over an explicit store of dataframe objects, because \<^verbatim>\<open>filtered_df = df\<close> binds a
  second name to the same object while every other right-hand side creates a new one.
\<close>

subsection \<open>Rows, dataframes and series\<close>

text \<open>
  A row carries the four columns the script reads by name in the filter part and, under
  \<open>other\<close>, every remaining column by name (the columns of the file such as Sales or
  Category, and the columns the script adds later). A timestamp is a calendar day and a
  time of day, counted from midnight; a date, as a date widget returns it, is a calendar
  day. A cell of another column is a string, a number or a monthly period.
\<close>

datatype month = January | February | March | April | May | June | July
  | August | September | October | November | December

type_synonym date = "int \<times> month \<times> nat"

type_synonym timestamp = "int \<times> month \<times> nat \<times> nat"

datatype cell = Str string | Num int | Period int month

record row =
  Region :: string
  State :: string
  City :: string
  Order_Date :: timestamp
  other :: "(string \<times> cell) list"

text \<open>
  A dataframe is its list of column names and its rows in order, each with its index
  label. A series is a column of values in order, each with its index label.
\<close>

type_synonym label = nat

record frame =
  columns :: "string list"
  body :: "(label \<times> row) list"

type_synonym 'a series = "(label \<times> 'a) list"

definition index :: "frame \<Rightarrow> label list" where
  "index f = map fst (body f)"

text \<open>\<^verbatim>\<open>pd.read_csv\<close> gives the parsed rows the labels 0, 1, 2, ... (a default range index).\<close>

definition read_csv :: "string list \<Rightarrow> row list \<Rightarrow> frame" where
  "read_csv header rows = \<lparr>columns = header, body = zip [0 ..< length rows] rows\<rparr>"

text \<open>\<^verbatim>\<open>f[name]\<close> for one of the named columns: the series of that column.\<close>

definition col :: "(row \<Rightarrow> 'a) \<Rightarrow> frame \<Rightarrow> 'a series" where
  "col c f = map (\<lambda>(i, r). (i, c r)) (body f)"

text \<open>\<^verbatim>\<open>s.isin(values)\<close>: elementwise membership, on the index of \<open>s\<close>.\<close>

definition isin :: "string series \<Rightarrow> string list \<Rightarrow> bool series" where
  "isin s vals = map (\<lambda>(i, v). (i, v \<in> set vals)) s"

text \<open>\<^verbatim>\<open>s.unique()\<close>: the distinct values in order of first appearance.\<close>

definition unique :: "'a series \<Rightarrow> 'a list" where
  "unique s = rev (remdups (rev (map snd s)))"

text \<open>
  \<^verbatim>\<open>a & b\<close> on two boolean series. On equal indexes the operation is elementwise. On
  different indexes pandas first aligns both operands on the sorted union of the two
  indexes; a label missing from an operand has no value there, and the conjunction with no
  value is False.
\<close>

definition series_and :: "bool series \<Rightarrow> bool series \<Rightarrow> bool series" where
  "series_and a b =
     (if map fst a = map fst b then map (\<lambda>((i, x), (j, y)). (i, x \<and> y)) (zip a b)
      else map (\<lambda>i. (i, map_of a i = Some True \<and> map_of b i = Some True))
             (sort (remdups (map fst a @ map fst b))))"

text \<open>
  \<^verbatim>\<open>f[key]\<close> with a boolean series as key. pandas reindexes the key to the index of
  \<open>f\<close> and keeps the rows whose label has the value True. A label of \<open>f\<close> that the key
  does not have makes the key unalignable, and pandas raises \<^verbatim>\<open>IndexingError\<close>. The
  result is always a new dataframe with the columns of \<open>f\<close>.

  The other two errors belong to the statements after line 84: a statement that names a
  column the dataframe does not have raises (\<^verbatim>\<open>KeyError\<close> in pandas,
  \<^verbatim>\<open>ValueError\<close> in plotly express), and a call into the aggregation, charting or
  widget libraries can raise for a reason of its own.
\<close>

datatype error = IndexingError | Missing_column | Library_error

definition getitem_bool :: "frame \<Rightarrow> bool series \<Rightarrow> error + frame" where
  "getitem_bool f key =
     (if list_ex (\<lambda>i. map_of key i = None) (index f) then Inl IndexingError
      else Inr (f\<lparr>body := filter (\<lambda>(i, r). map_of key i = Some True) (body f)\<rparr>))"

text \<open>\<^verbatim>\<open>f.copy()\<close>: a new dataframe with the same contents.\<close>

definition copy :: "frame \<Rightarrow> frame" where
  "copy f = f"

text \<open>
  \<^verbatim>\<open>f[name] = values\<close> for a column computed row by row from \<open>f\<close> itself, where
  \<open>name\<close> is not one of the four named columns: the column is overwritten when it is
  there and appended when it is not.
\<close>

definition setitem :: "frame \<Rightarrow> string \<Rightarrow> (row \<Rightarrow> cell) \<Rightarrow> frame" where
  "setitem f name val =
     \<lparr>columns = (if name \<in> set (columns f) then columns f else columns f @ [name]),
      body = map (\<lambda>(i, r). (i, r\<lparr>other := AList.update name (val r) (other r)\<rparr>)) (body f)\<rparr>"

subsection \<open>Dates\<close>

fun month_number :: "month \<Rightarrow> nat" where
  "month_number January = 1"
| "month_number February = 2"
| "month_number March = 3"
| "month_number April = 4"
| "month_number May = 5"
| "month_number June = 6"
| "month_number July = 7"
| "month_number August = 8"
| "month_number September = 9"
| "month_number October = 10"
| "month_number November = 11"
| "month_number December = 12"

text \<open>The order of timestamps: by year, month, day and time of day.\<close>

fun stamp_le :: "timestamp \<Rightarrow> timestamp \<Rightarrow> bool" where
  "stamp_le (y1, m1, d1, t1) (y2, m2, d2, t2) =
     (y1 < y2 \<or> (y1 = y2 \<and> (month_number m1 < month_number m2
        \<or> (m1 = m2 \<and> (d1 < d2 \<or> (d1 = d2 \<and> t1 \<le> t2))))))"

text \<open>
  Lines 45 and 47: \<^verbatim>\<open>pd.to_datetime(st.date_input(...))\<close>, the timestamp of a date is
  its midnight.
\<close>

fun to_datetime :: "date \<Rightarrow> timestamp" where
  "to_datetime (y, m, d) = (y, m, d, 0)"

text \<open>\<^verbatim>\<open>s.dt.to_period("M")\<close> and \<^verbatim>\<open>s.dt.month_name()\<close> on one timestamp.\<close>

fun to_period_M :: "timestamp \<Rightarrow> cell" where
  "to_period_M (y, m, d, t) = Period y m"

fun month_name :: "timestamp \<Rightarrow> cell" where
  "month_name (y, January, d, t) = Str ''January''"
| "month_name (y, February, d, t) = Str ''February''"
| "month_name (y, March, d, t) = Str ''March''"
| "month_name (y, April, d, t) = Str ''April''"
| "month_name (y, May, d, t) = Str ''May''"
| "month_name (y, June, d, t) = Str ''June''"
| "month_name (y, July, d, t) = Str ''July''"
| "month_name (y, August, d, t) = Str ''August''"
| "month_name (y, September, d, t) = Str ''September''"
| "month_name (y, October, d, t) = Str ''October''"
| "month_name (y, November, d, t) = Str ''November''"
| "month_name (y, December, d, t) = Str ''December''"

text \<open>
  Line 50: \<^verbatim>\<open>df[(df["Order Date"] >= date1) & (df["Order Date"] <= date2)].copy()\<close>,
  with \<^verbatim>\<open>date1\<close> and \<^verbatim>\<open>date2\<close> the midnights of the two dates picked: an order
  of the end date with a time after midnight is outside the range.
\<close>

definition date_range :: "frame \<Rightarrow> date \<Rightarrow> date \<Rightarrow> error + frame" where
  "date_range f start_date end_date =
     (case getitem_bool f
             (series_and
                (map (\<lambda>(i, t). (i, stamp_le (to_datetime start_date) t)) (col Order_Date f))
                (map (\<lambda>(i, t). (i, stamp_le t (to_datetime end_date))) (col Order_Date f))) of
        Inl e \<Rightarrow> Inl e
      | Inr g \<Rightarrow> Inr (copy g))"

subsection \<open>The right-hand sides of lines 57 to 84\<close>

text \<open>
  A selection is the list a multiselect widget returns; Python's \<^verbatim>\<open>if region\<close> and
  \<^verbatim>\<open>not region\<close> test whether the list is non-empty or empty.
\<close>

type_synonym selection = "string list"

text \<open>Line 58: \<^verbatim>\<open>df[df["Region"].isin(region)] if region else df.copy()\<close>.\<close>

definition df2_rhs :: "frame \<Rightarrow> selection \<Rightarrow> error + frame" where
  "df2_rhs df region =
     (if region \<noteq> [] then getitem_bool df (isin (col Region df) region) else Inr (copy df))"

text \<open>Line 62: \<^verbatim>\<open>df2[df2["State"].isin(state)] if state else df2.copy()\<close>.\<close>

definition df3_rhs :: "frame \<Rightarrow> selection \<Rightarrow> error + frame" where
  "df3_rhs df2 state =
     (if state \<noteq> [] then getitem_bool df2 (isin (col State df2) state) else Inr (copy df2))"

text \<open>
  Lines 69 to 84: the chain of conditions, in the order of the source. The eighth
  alternative is the final \<^verbatim>\<open>else\<close>.
\<close>

datatype branch = All_empty | Region_only | State_only | State_and_city
  | Region_and_city | Region_and_state | City_only | Final_else

definition select_branch :: "selection \<Rightarrow> selection \<Rightarrow> selection \<Rightarrow> branch" where
  "select_branch region state city =
     (if region = [] \<and> state = [] \<and> city = [] then All_empty
      else if state = [] \<and> city = [] then Region_only
      else if region = [] \<and> city = [] then State_only
      else if state \<noteq> [] \<and> city \<noteq> [] then State_and_city
      else if region \<noteq> [] \<and> city \<noteq> [] then Region_and_city
      else if region \<noteq> [] \<and> state \<noteq> [] then Region_and_state
      else if city \<noteq> [] then City_only
      else Final_else)"

text \<open>
  The expression each alternative assigns, on the values of \<^verbatim>\<open>df\<close> and \<^verbatim>\<open>df3\<close>.
  The first alternative assigns \<^verbatim>\<open>df\<close> itself; the others index \<^verbatim>\<open>df\<close> or
  \<^verbatim>\<open>df3\<close> with a mask, and three of them build the mask from a column of \<^verbatim>\<open>df\<close>
  and a column of \<^verbatim>\<open>df3\<close>.
\<close>

fun branch_rhs ::
  "branch \<Rightarrow> frame \<Rightarrow> frame \<Rightarrow> selection \<Rightarrow> selection \<Rightarrow> selection \<Rightarrow> error + frame" where
  "branch_rhs All_empty df df3 region state city = Inr df"
| "branch_rhs Region_only df df3 region state city =
     getitem_bool df (isin (col Region df) region)"
| "branch_rhs State_only df df3 region state city =
     getitem_bool df (isin (col State df) state)"
| "branch_rhs State_and_city df df3 region state city =
     getitem_bool df3 (series_and (isin (col State df) state) (isin (col City df3) city))"
| "branch_rhs Region_and_city df df3 region state city =
     getitem_bool df3 (series_and (isin (col Region df) region) (isin (col City df3) city))"
| "branch_rhs Region_and_state df df3 region state city =
     getitem_bool df3 (series_and (isin (col Region df) region) (isin (col State df3) state))"
| "branch_rhs City_only df df3 region state city =
     getitem_bool df3 (isin (col City df3) city)"
| "branch_rhs Final_else df df3 region state city =
     getitem_bool df3
       (series_and (series_and (isin (col Region df3) region) (isin (col State df3) state))
                   (isin (col City df3) city))"

text \<open>
  Lines 61 and 65: the option lists of the State and City widgets,
  \<^verbatim>\<open>df2["State"].unique()\<close> and \<^verbatim>\<open>df3["City"].unique()\<close>.
\<close>

definition availableStates :: "frame \<Rightarrow> selection \<Rightarrow> error + string list" where
  "availableStates df region =
     (case df2_rhs df region of
        Inl e \<Rightarrow> Inl e
      | Inr df2 \<Rightarrow> Inr (unique (col State df2)))"

definition availableCities :: "frame \<Rightarrow> selection \<Rightarrow> selection \<Rightarrow> error + string list" where
  "availableCities df region state =
     (case df2_rhs df region of
        Inl e \<Rightarrow> Inl e
      | Inr df2 \<Rightarrow>
          (case df3_rhs df2 state of
             Inl e \<Rightarrow> Inl e
           | Inr df3 \<Rightarrow> Inr (unique (col City df3))))"

subsection \<open>The script over a store of dataframe objects\<close>

text \<open>
  A variable of the script holds the address of a dataframe object: \<open>df_at\<close> is the
  address \<^verbatim>\<open>df\<close> holds, and so on. Creating a dataframe allocates the next address; an
  address not yet allocated holds the empty dataframe and is never read.
\<close>

type_synonym addr = nat

record store =
  objs :: "addr \<Rightarrow> frame"
  nxt :: addr

definition empty_store :: store where
  "empty_store = \<lparr>objs = (\<lambda>a. \<lparr>columns = [], body = []\<rparr>), nxt = 0\<rparr>"

definition new :: "frame \<Rightarrow> store \<Rightarrow> addr \<times> store" where
  "new f s = (nxt s, s\<lparr>objs := (objs s)(nxt s := f), nxt := Suc (nxt s)\<rparr>)"

record session =
  heap :: store
  df_at :: addr
  df2_at :: addr
  df3_at :: addr
  filtered_df_at :: addr

text \<open>
  Lines 50 to 84, from the date-filtered dataframe that line 50 creates and the three
  selections. Line 70 binds \<^verbatim>\<open>filtered_df\<close> to the object of \<^verbatim>\<open>df\<close>; each of lines
  72 to 84 binds it to the new object its indexing expression returns.
\<close>

definition filter_section ::
  "frame \<Rightarrow> selection \<Rightarrow> selection \<Rightarrow> selection \<Rightarrow> error + session" where
  "filter_section base region state city =
     (let (a, s0) = new base empty_store in
      case df2_rhs (objs s0 a) region of
        Inl e \<Rightarrow> Inl e
      | Inr v2 \<Rightarrow>
          (let (a2, s1) = new v2 s0 in
           case df3_rhs (objs s1 a2) state of
             Inl e \<Rightarrow> Inl e
           | Inr v3 \<Rightarrow>
               (let (a3, s2) = new v3 s1 in
                if select_branch region state city = All_empty
                then Inr \<lparr>heap = s2, df_at = a, df2_at = a2, df3_at = a3, filtered_df_at = a\<rparr>
                else
                  (case branch_rhs (select_branch region state city)
                          (objs s2 a) (objs s2 a3) region state city of
                     Inl e \<Rightarrow> Inl e
                   | Inr v \<Rightarrow>
                       (let (a4, s3) = new v s2 in
                        Inr \<lparr>heap = s3, df_at = a, df2_at = a2, df3_at = a3, filtered_df_at = a4\<rparr>)))))"

text \<open>
  The filtered view the rest of the script works on: the dataframe \<^verbatim>\<open>filtered_df\<close>
  refers to after line 84. This is the function the specification calls \<open>resolve\<close>.
\<close>

definition resolve ::
  "frame \<Rightarrow> selection \<Rightarrow> selection \<Rightarrow> selection \<Rightarrow> error + frame" where
  "resolve base region state city =
     (case filter_section base region state city of
        Inl e \<Rightarrow> Inl e
      | Inr ss \<Rightarrow> Inr (objs (heap ss) (filtered_df_at ss)))"

text \<open>
  Lines 129 and 179 assign a new column to the object of \<^verbatim>\<open>filtered_df\<close>, in place:
  \<^verbatim>\<open>filtered_df["month_year"] = filtered_df["Order Date"].dt.to_period("M")\<close> and
  \<^verbatim>\<open>filtered_df["month"] = filtered_df["Order Date"].dt.month_name()\<close>.
\<close>

definition month_year_assigned :: "frame \<Rightarrow> frame" where
  "month_year_assigned f = setitem f ''month_year'' (\<lambda>r. to_period_M (Order_Date r))"

definition month_assigned :: "frame \<Rightarrow> frame" where
  "month_assigned f = setitem f ''month'' (\<lambda>r. month_name (Order_Date r))"

definition in_place :: "(frame \<Rightarrow> frame) \<Rightarrow> session \<Rightarrow> session" where
  "in_place g ss =
     ss\<lparr>heap := (heap ss)\<lparr>objs := (objs (heap ss))
            (filtered_df_at ss := g (objs (heap ss) (filtered_df_at ss)))\<rparr>\<rparr>"

text \<open>
  Every other statement from line 85 to line 198 reads \<^verbatim>\<open>df\<close> and \<^verbatim>\<open>filtered_df\<close>
  and changes neither, but it can raise, and then the script never reaches line 199. The
  statements fall into three blocks, separated by the two assignments:
  \<^item> lines 88 to 125 (the category bar chart, the region pie and the two summary tables)
    name the columns Category and Sales of \<^verbatim>\<open>filtered_df\<close>;
  \<^item> lines 133 to 175 (the time series, the tree map, the two pies and the sample table)
    name the columns Sales, Category, Sub-Category and Segment of \<^verbatim>\<open>filtered_df\<close>, and
    line 173 names Category, Sales, Profit and Quantity of \<^verbatim>\<open>df\<close>;
  \<^item> lines 180 to 195 (the pivot table, the scatter plot and the data viewer) name the
    columns Sales, Sub-Category, Profit and Quantity of \<^verbatim>\<open>filtered_df\<close>.
  The columns Region, State, City and Order Date, and the two assigned columns, are there
  when they are named. Whether the library calls of a block return on given dataframes
  is not decided by the source: it is the parameter \<open>lib\<close>, applied to the block and to
  the values of \<^verbatim>\<open>df\<close> and \<^verbatim>\<open>filtered_df\<close> at that point.
\<close>

datatype stage = Top_charts | Time_series_and_segments | Pivot_and_scatter

type_synonym libraries = "stage \<Rightarrow> frame \<Rightarrow> frame \<Rightarrow> bool"

definition has_columns :: "frame \<Rightarrow> string list \<Rightarrow> bool" where
  "has_columns f names = list_all (\<lambda>n. n \<in> set (columns f)) names"

definition reading ::
  "libraries \<Rightarrow> stage \<Rightarrow> string list \<Rightarrow> string list \<Rightarrow> session \<Rightarrow> error + session" where
  "reading lib st df_names view_names ss =
     (if has_columns (objs (heap ss) (df_at ss)) df_names
         \<and> has_columns (objs (heap ss) (filtered_df_at ss)) view_names
      then (if lib st (objs (heap ss) (df_at ss)) (objs (heap ss) (filtered_df_at ss))
            then Inr ss
            else Inl Library_error)
      else Inl Missing_column)"

text \<open>
  Line 199: \<^verbatim>\<open>df.to_csv(index=False)\<close>, the export of the object of \<^verbatim>\<open>df\<close>: its
  header and its rows without the index labels.
\<close>

definition to_csv :: "frame \<Rightarrow> string list \<times> row list" where
  "to_csv f = (columns f, map snd (body f))"

text \<open>Lines 85 to 199, from the session the filter leaves: the export, or the error.\<close>

definition analysis_section :: "libraries \<Rightarrow> session \<Rightarrow> error + string list \<times> row list" where
  "analysis_section lib s0 =
     (case reading lib Top_charts [] [''Category'', ''Sales''] s0 of
        Inl e \<Rightarrow> Inl e
      | Inr s1 \<Rightarrow>
     (case reading lib Time_series_and_segments
             [''Category'', ''Sales'', ''Profit'', ''Quantity'']
             [''Sales'', ''Category'', ''Sub-Category'', ''Segment'']
             (in_place month_year_assigned s1) of
        Inl e \<Rightarrow> Inl e
      | Inr s2 \<Rightarrow>
     (case reading lib Pivot_and_scatter [] [''Sales'', ''Sub-Category'', ''Profit'', ''Quantity'']
             (in_place month_assigned s2) of
        Inl e \<Rightarrow> Inl e
      | Inr s3 \<Rightarrow> Inr (to_csv (objs (heap s3) (df_at s3))))))"

text \<open>The script from line 50 to line 199.\<close>

definition dashboard ::
  "libraries \<Rightarrow> frame \<Rightarrow> selection \<Rightarrow> selection \<Rightarrow> selection
     \<Rightarrow> error + string list \<times> row list" where
  "dashboard lib base region state city =
     (case filter_section base region state city of
        Inl e \<Rightarrow> Inl e
      | Inr s0 \<Rightarrow> analysis_section lib s0)"

subsection \<open>The resolution policy of the specification\<close>

text \<open>
  The specification's table, in its own words: an empty selection accepts any value, a
  non-empty one accepts its members, and the result is the rows that every level accepts.
\<close>

definition accepts :: "selection \<Rightarrow> string \<Rightarrow> bool" where
  "accepts sel v = (sel = [] \<or> v \<in> set sel)"

definition matches :: "selection \<Rightarrow> selection \<Rightarrow> selection \<Rightarrow> row \<Rightarrow> bool" where
  "matches region state city r =
     (accepts region (Region r) \<and> accepts state (State r) \<and> accepts city (City r))"

definition rows_where :: "(row \<Rightarrow> bool) \<Rightarrow> frame \<Rightarrow> frame" where
  "rows_where P f = f\<lparr>body := filter (\<lambda>(i, r). P r) (body f)\<rparr>"

text \<open>
  Index labels are unique: the labels of \<open>read_csv\<close>, and of any selection of its rows.
  Looking a label up in a key, as \<open>getitem_bool\<close> does, is what the reindexing of pandas
  amounts to on such dataframes, and they are the only ones the script builds.
\<close>

definition unique_index :: "frame \<Rightarrow> bool" where
  "unique_index f = distinct (index f)"

text \<open>
  When the script reaches the export: the base dataset has the six columns the charts
  name, and the library calls of each block return on the dataframes the block sees. With
  all selections empty \<^verbatim>\<open>df\<close> is the filtered view itself, columns added so far
  included; otherwise it is the base dataset.
\<close>

definition chart_columns :: "string list" where
  "chart_columns = [''Category'', ''Sales'', ''Sub-Category'', ''Segment'', ''Profit'', ''Quantity'']"

definition reaches_export ::
  "libraries \<Rightarrow> frame \<Rightarrow> selection \<Rightarrow> selection \<Rightarrow> selection \<Rightarrow> bool" where
  "reaches_export lib base region state city =
     (let unfiltered = (region = [] \<and> state = [] \<and> city = []);
          view = rows_where (matches region state city) base;
          view1 = month_year_assigned view;
          view2 = month_assigned view1
      in has_columns base chart_columns
         \<and> lib Top_charts base view
         \<and> lib Time_series_and_segments (if unfiltered then view1 else base) view1
         \<and> lib Pivot_and_scatter (if unfiltered then view2 else base) view2)"

text \<open>The libraries that return on every dataframe.\<close>

definition obliging :: libraries where
  "obliging st d v = True"

subsection \<open>A concrete dataset\<close>

text \<open>
  Four rows of a file with the columns of the Superstore data the script names; the date
  range of the year 2017 drops the second one, so the date-filtered dataframe
  \<open>scenario\<close> has the labels 0, 2 and 3. Its three rows are the rows of the
  specification's concrete scenarios.
\<close>

definition ny_row :: row where
  "ny_row = \<lparr>Region = ''East'', State = ''NY'', City = ''NYC'',
             Order_Date = (2017, March, 5, 0),
             other = [(''Segment'', Str ''Consumer''), (''Category'', Str ''Furniture''),
                      (''Sub-Category'', Str ''Chairs''), (''Sales'', Num 100),
                      (''Quantity'', Num 2), (''Profit'', Num 20)]\<rparr>"

definition tx_row :: row where
  "tx_row = \<lparr>Region = ''South'', State = ''TX'', City = ''Austin'',
             Order_Date = (2015, June, 1, 0),
             other = [(''Segment'', Str ''Corporate''), (''Category'', Str ''Technology''),
                      (''Sub-Category'', Str ''Phones''), (''Sales'', Num 250),
                      (''Quantity'', Num 1), (''Profit'', Num 40)]\<rparr>"

definition la_row :: row where
  "la_row = \<lparr>Region = ''West'', State = ''CA'', City = ''LA'',
             Order_Date = (2017, April, 20, 0),
             other = [(''Segment'', Str ''Consumer''), (''Category'', Str ''Office Supplies''),
                      (''Sub-Category'', Str ''Paper''), (''Sales'', Num 75),
                      (''Quantity'', Num 5), (''Profit'', Num 30)]\<rparr>"

definition sf_row :: row where
  "sf_row = \<lparr>Region = ''West'', State = ''CA'', City = ''SF'',
             Order_Date = (2017, November, 2, 0),
             other = [(''Segment'', Str ''Home Office''), (''Category'', Str ''Technology''),
                      (''Sub-Category'', Str ''Phones''), (''Sales'', Num 30),
                      (''Quantity'', Num 3), (''Profit'', Num 4)]\<rparr>"

definition header :: "string list" where
  "header = [''Order Date'', ''Segment'', ''City'', ''State'', ''Region'', ''Category'',
             ''Sub-Category'', ''Sales'', ''Quantity'', ''Profit'']"

text \<open>The same file without the column Category, and the third row a second after midnight.\<close>

definition header_without_category :: "string list" where
  "header_without_category = [''Order Date'', ''Segment'', ''City'', ''State'', ''Region'',
             ''Sub-Category'', ''Sales'', ''Quantity'', ''Profit'']"

definition la_row_later :: row where
  "la_row_later = la_row\<lparr>Order_Date := (2017, April, 20, 1)\<rparr>"

definition scenario :: frame where
  "scenario = \<lparr>columns = header, body = [(0, ny_row), (2, la_row), (3, sf_row)]\<rparr>"

definition west_rows :: frame where
  "west_rows = \<lparr>columns = header, body = [(2, la_row), (3, sf_row)]\<rparr>"

definition no_rows :: frame where
  "no_rows = \<lparr>columns = header, body = []\<rparr>"

definition scenario_without_category :: frame where
  "scenario_without_category =
     \<lparr>columns = header_without_category,
      body = map (\<lambda>(i, r). (i, r\<lparr>other := AList.delete ''Category'' (other r)\<rparr>)) (body scenario)\<rparr>"

text \<open>Libraries whose pivot table raises on a view with fewer than two rows.\<close>

fun fragile :: libraries where
  "fragile Pivot_and_scatter d v = (2 \<le> length (body v))"
| "fragile st d v = True"

lemmas rows_defs = ny_row_def tx_row_def la_row_def sf_row_def

section \<open>Properties\<close>

subsection \<open>Looking a label up in a series\<close>

lemma lookup_mapped:
  "map_of (map (\<lambda>i. (i, g i)) ks) i = (if i \<in> set ks then Some (g i) else None)"
  by (induction ks) auto

lemma lookup_zipped:
  "map fst a = map fst b \<Longrightarrow> map_of a i = Some x \<Longrightarrow> map_of b i = Some y \<Longrightarrow>
   map_of (map (\<lambda>((i, x), (j, y)). (i, x \<and> y)) (zip a b)) i = Some (x \<and> y)"
proof (induction a arbitrary: b)
  case Nil
  then show ?case by simp
next
  case (Cons p a)
  then obtain q b' where b: "b = q # b'" by (cases b) auto
  with Cons show ?case by (cases p; cases q) (auto split: if_splits)
qed

text \<open>Where both operands have a value, the conjunction has the conjunction of the values.\<close>

lemma lookup_series_and:
  assumes "map_of a i = Some x" and "map_of b i = Some y"
  shows "map_of (series_and a b) i = Some (x \<and> y)"
proof (cases "map fst a = map fst b")
  case True
  with assms show ?thesis by (simp add: series_and_def lookup_zipped)
next
  case False
  from assms(1) have "i \<in> fst ` set a" by (metis map_of_eq_None_iff option.distinct(1))
  with False assms show ?thesis by (simp add: series_and_def lookup_mapped)
qed

lemma lookup_col:
  "unique_index f \<Longrightarrow> (i, r) \<in> set (body f) \<Longrightarrow> map_of (col c f) i = Some (c r)"
  by (simp add: unique_index_def index_def col_def map_of_map[simplified])

lemma lookup_isin:
  "map_of s i = Some v \<Longrightarrow> map_of (isin s vals) i = Some (v \<in> set vals)"
  by (simp add: isin_def map_of_map[simplified])

lemma lookup_compare:
  "map_of s i = Some v \<Longrightarrow> map_of (map (\<lambda>(i, d). (i, p d)) s) i = Some (p v)"
  by (simp add: map_of_map[simplified])

subsection \<open>Indexing with a mask selects rows\<close>

lemma rows_where_all: "(\<And>r. P r) \<Longrightarrow> rows_where P f = f"
  by (simp add: rows_where_def)

lemma rows_where_cong: "(\<And>r. P r = Q r) \<Longrightarrow> rows_where P f = rows_where Q f"
  by (simp add: rows_where_def)

lemma rows_where_twice: "rows_where P (rows_where Q f) = rows_where (\<lambda>r. Q r \<and> P r) f"
  by (simp add: rows_where_def case_prod_unfold)

lemma body_rows_where:
  "(i, r) \<in> set (body (rows_where P f)) \<longleftrightarrow> (i, r) \<in> set (body f) \<and> P r"
  by (auto simp: rows_where_def)

lemma unique_index_rows_where: "unique_index f \<Longrightarrow> unique_index (rows_where P f)"
  by (simp add: unique_index_def index_def rows_where_def distinct_map_filter)

text \<open>
  A key that has, at every label of the dataframe, the truth value of \<open>P\<close> on that row
  never fails to align, and selects the rows where \<open>P\<close> holds.
\<close>

lemma getitem_rows_where:
  assumes "\<And>i r. (i, r) \<in> set (body f) \<Longrightarrow> map_of key i = Some (P r)"
  shows "getitem_bool f key = Inr (rows_where P f)"
proof -
  have "\<not> list_ex (\<lambda>i. map_of key i = None) (index f)"
    using assms by (auto simp: list_ex_iff index_def)
  moreover have "filter (\<lambda>(i, r). map_of key i = Some True) (body f)
      = filter (\<lambda>(i, r). P r) (body f)"
    using assms by (intro filter_cong) auto
  ultimately show ?thesis by (simp add: getitem_bool_def rows_where_def)
qed

lemma getitem_isin:
  assumes "unique_index f"
  shows "getitem_bool f (isin (col c f) vals) = Inr (rows_where (\<lambda>r. c r \<in> set vals) f)"
  by (rule getitem_rows_where) (simp add: assms lookup_col lookup_isin)

lemma getitem_and:
  assumes "unique_index f"
  shows "getitem_bool f (series_and (isin (col c f) vals) (isin (col c' f) vals'))
         = Inr (rows_where (\<lambda>r. c r \<in> set vals \<and> c' r \<in> set vals') f)"
  by (rule getitem_rows_where) (simp add: assms lookup_series_and lookup_isin lookup_col)

text \<open>
  The mixed masks of lines 76, 78 and 80: one operand over the whole dataframe, the other
  over a selection of its rows, the key applied to the selection.
\<close>

lemma getitem_mixed:
  assumes "unique_index f"
  shows "getitem_bool (rows_where Q f)
           (series_and (isin (col c f) vals) (isin (col c' (rows_where Q f)) vals'))
         = Inr (rows_where (\<lambda>r. c r \<in> set vals \<and> c' r \<in> set vals') (rows_where Q f))"
proof (rule getitem_rows_where)
  fix i r
  assume in3: "(i, r) \<in> set (body (rows_where Q f))"
  then have in1: "(i, r) \<in> set (body f)" by (simp add: body_rows_where)
  have "map_of (isin (col c f) vals) i = Some (c r \<in> set vals)"
    using assms in1 by (simp add: lookup_col lookup_isin)
  moreover have "map_of (isin (col c' (rows_where Q f)) vals') i = Some (c' r \<in> set vals')"
    using assms in3 by (simp add: lookup_col lookup_isin unique_index_rows_where)
  ultimately show "map_of (series_and (isin (col c f) vals)
                     (isin (col c' (rows_where Q f)) vals')) i
      = Some (c r \<in> set vals \<and> c' r \<in> set vals')"
    by (rule lookup_series_and)
qed

subsection \<open>Loading gives unique labels\<close>

lemma unique_index_read_csv: "unique_index (read_csv header rows)"
  by (simp add: unique_index_def index_def read_csv_def)

lemma date_range_value:
  assumes "unique_index f"
  shows "date_range f date1 date2
     = Inr (rows_where (\<lambda>r. stamp_le (to_datetime date1) (Order_Date r)
                          \<and> stamp_le (Order_Date r) (to_datetime date2)) f)"
proof -
  have "getitem_bool f
          (series_and
             (map (\<lambda>(i, t). (i, stamp_le (to_datetime date1) t)) (col Order_Date f))
             (map (\<lambda>(i, t). (i, stamp_le t (to_datetime date2))) (col Order_Date f)))
        = Inr (rows_where (\<lambda>r. stamp_le (to_datetime date1) (Order_Date r)
                             \<and> stamp_le (Order_Date r) (to_datetime date2)) f)"
    by (rule getitem_rows_where) (simp add: assms lookup_series_and lookup_compare lookup_col)
  then show ?thesis by (simp add: date_range_def copy_def)
qed

text \<open>
  Every dataframe the script can hold in \<^verbatim>\<open>df\<close> after line 50 has unique labels: this
  is the hypothesis \<open>unique_index base\<close> of the theorems below.
\<close>

lemma unique_index_loaded:
  "date_range (read_csv header rows) date1 date2 = Inr base \<Longrightarrow> unique_index base"
  by (auto simp: date_range_value unique_index_read_csv unique_index_rows_where)

lemma scenario_loaded:
  "date_range (read_csv header [ny_row, tx_row, la_row, sf_row])
     (2017, January, 1) (2017, December, 31) = Inr scenario"
  by (simp add: date_range_def read_csv_def getitem_bool_def series_and_def col_def index_def
        copy_def scenario_def rows_defs upt_rec)

text \<open>An order of the end date with a time after midnight is dropped.\<close>

lemma end_date_is_midnight:
  "date_range (read_csv header [ny_row, la_row, la_row_later]) (2017, January, 1) (2017, April, 20)
     = Inr \<lparr>columns = header, body = [(0, ny_row), (1, la_row)]\<rparr>"
  by code_simp

lemma unique_index_scenario: "unique_index scenario"
  by (simp add: unique_index_def index_def scenario_def)

lemma unique_index_no_rows: "unique_index no_rows"
  by (simp add: unique_index_def index_def no_rows_def)

subsection \<open>The values of \<^verbatim>\<open>df2\<close>, \<^verbatim>\<open>df3\<close> and \<^verbatim>\<open>filtered_df\<close>\<close>

lemma df2_value:
  assumes "unique_index base"
  shows "df2_rhs base region = Inr (rows_where (\<lambda>r. accepts region (Region r)) base)"
proof (cases "region = []")
  case True
  then show ?thesis by (simp add: df2_rhs_def copy_def accepts_def rows_where_all)
next
  case False
  then show ?thesis by (simp add: df2_rhs_def accepts_def getitem_isin assms)
qed

lemma df3_value:
  assumes "unique_index v2"
  shows "df3_rhs v2 state = Inr (rows_where (\<lambda>r. accepts state (State r)) v2)"
proof (cases "state = []")
  case True
  then show ?thesis by (simp add: df3_rhs_def copy_def accepts_def rows_where_all)
next
  case False
  then show ?thesis by (simp add: df3_rhs_def accepts_def getitem_isin assms)
qed

lemma df3_of_base:
  assumes "unique_index base"
  shows "df3_rhs (rows_where (\<lambda>r. accepts region (Region r)) base) state
         = Inr (rows_where (\<lambda>r. accepts region (Region r) \<and> accepts state (State r)) base)"
  by (simp add: df3_value unique_index_rows_where assms rows_where_twice)

lemma select_branch_All_empty:
  "select_branch region state city = All_empty \<longleftrightarrow> region = [] \<and> state = [] \<and> city = []"
  by (simp add: select_branch_def)

text \<open>
  The alternative the chain selects, evaluated on \<^verbatim>\<open>df\<close> and on the \<^verbatim>\<open>df3\<close> that
  lines 58 and 62 derive from it, is the set of rows every level accepts.
\<close>

lemma branch_value:
  assumes u: "unique_index base"
  shows "branch_rhs (select_branch region state city) base
           (rows_where (\<lambda>r. accepts region (Region r) \<and> accepts state (State r)) base)
           region state city
         = Inr (rows_where (matches region state city) base)"
proof (cases "select_branch region state city")
  case All_empty
  then have "region = [] \<and> state = [] \<and> city = []"
    by (simp add: select_branch_def split: if_splits)
  then show ?thesis unfolding All_empty
    by (simp add: matches_def accepts_def rows_where_all)
next
  case Region_only
  then have "region \<noteq> [] \<and> state = [] \<and> city = []"
    by (simp add: select_branch_def split: if_splits)
  then show ?thesis unfolding Region_only
    by (auto simp add: matches_def accepts_def getitem_isin u intro!: rows_where_cong)
next
  case State_only
  then have "region = [] \<and> state \<noteq> [] \<and> city = []"
    by (simp add: select_branch_def split: if_splits)
  then show ?thesis unfolding State_only
    by (auto simp add: matches_def accepts_def getitem_isin u intro!: rows_where_cong)
next
  case State_and_city
  then have "state \<noteq> [] \<and> city \<noteq> []"
    by (simp add: select_branch_def split: if_splits)
  then show ?thesis unfolding State_and_city
    by (auto simp add: matches_def getitem_mixed u rows_where_twice accepts_def
          intro!: rows_where_cong)
next
  case Region_and_city
  then have "region \<noteq> [] \<and> state = [] \<and> city \<noteq> []"
    by (simp add: select_branch_def split: if_splits)
  then show ?thesis unfolding Region_and_city
    by (auto simp add: matches_def getitem_mixed u rows_where_twice accepts_def
          intro!: rows_where_cong)
next
  case Region_and_state
  then have "region \<noteq> [] \<and> state \<noteq> [] \<and> city = []"
    by (simp add: select_branch_def split: if_splits)
  then show ?thesis unfolding Region_and_state
    by (auto simp add: matches_def getitem_mixed u rows_where_twice accepts_def
          intro!: rows_where_cong)
next
  case City_only
  then have "region = [] \<and> state = [] \<and> city \<noteq> []"
    by (simp add: select_branch_def split: if_splits)
  then show ?thesis unfolding City_only
    by (auto simp add: matches_def accepts_def getitem_isin u unique_index_rows_where
          rows_where_twice intro!: rows_where_cong)
next
  case Final_else
  then show ?thesis by (simp add: select_branch_def split: if_splits)
qed

text \<open>The store does not change what the filtered view contains.\<close>

lemma resolve_value:
  "resolve base region state city =
     (case df2_rhs base region of
        Inl e \<Rightarrow> Inl e
      | Inr v2 \<Rightarrow>
          (case df3_rhs v2 state of
             Inl e \<Rightarrow> Inl e
           | Inr v3 \<Rightarrow> branch_rhs (select_branch region state city) base v3 region state city))"
  by (simp add: resolve_def filter_section_def new_def empty_store_def split: sum.splits)

lemma resolve_rows_where:
  assumes "unique_index base"
  shows "resolve base region state city = Inr (rows_where (matches region state city) base)"
  by (simp add: resolve_value df2_value df3_of_base branch_value assms)

lemma set_unique: "set (unique s) = snd ` set s"
  by (simp add: unique_def)

lemma distinct_unique: "distinct (unique s)"
  by (simp add: unique_def)

lemma values_col_rows_where:
  "snd ` set (col c (rows_where P f)) = {c r | i r. (i, r) \<in> set (body f) \<and> P r}"
  by (force simp: col_def body_rows_where image_iff)

lemma availableStates_value:
  "unique_index base \<Longrightarrow>
   availableStates base region
     = Inr (unique (col State (rows_where (\<lambda>r. accepts region (Region r)) base)))"
  by (simp add: availableStates_def df2_value)

lemma availableCities_value:
  "unique_index base \<Longrightarrow>
   availableCities base region state
     = Inr (unique (col City
         (rows_where (\<lambda>r. accepts region (Region r) \<and> accepts state (State r)) base)))"
  by (simp add: availableCities_def df2_value df3_of_base)

subsection \<open>The script on the concrete dataset\<close>

text \<open>Each equation is computed from the definitions of the script alone.\<close>

lemma resolve_west_sf:
  "resolve scenario [''West''] [] [''SF''] = Inr \<lparr>columns = header, body = [(3, sf_row)]\<rparr>"
  by code_simp

lemma resolve_ca:
  "resolve scenario [] [''CA''] [] = Inr west_rows"
  by code_simp

lemma resolve_west_ca:
  "resolve scenario [''West''] [''CA''] [] = Inr west_rows"
  by code_simp

lemma resolve_west_ca_la:
  "resolve scenario [''West''] [''CA''] [''LA''] = Inr \<lparr>columns = header, body = [(2, la_row)]\<rparr>"
  by code_simp

lemma resolve_west_ca_sf:
  "resolve scenario [''West''] [''CA''] [''SF''] = Inr \<lparr>columns = header, body = [(3, sf_row)]\<rparr>"
  by code_simp

lemma resolve_west_ca_la_nyc:
  "resolve scenario [''West''] [''CA''] [''LA'', ''NYC'']
     = Inr \<lparr>columns = header, body = [(2, la_row)]\<rparr>"
  by code_simp

lemma resolve_again:
  "resolve \<lparr>columns = header, body = [(2, la_row)]\<rparr> [''West''] [''CA''] [''LA'', ''NYC'']
     = Inr \<lparr>columns = header, body = [(2, la_row)]\<rparr>"
  by code_simp

lemma resolve_east_sf:
  "resolve scenario [''East''] [] [''SF''] = Inr no_rows"
  by code_simp

lemma resolve_no_rows:
  "resolve no_rows [''West''] [''CA''] [''SF''] = Inr no_rows"
  by code_simp

lemma availableStates_west: "availableStates scenario [''West''] = Inr [''CA'']"
  by code_simp

lemma availableStates_any: "availableStates scenario [] = Inr [''NY'', ''CA'']"
  by code_simp

lemma availableCities_west_ca: "availableCities scenario [''West''] [''CA''] = Inr [''LA'', ''SF'']"
  by code_simp

lemma cascade_ca:
  "df2_rhs scenario [] = Inr scenario \<and> df3_rhs scenario [''CA''] = Inr west_rows"
  by code_simp

lemma cascade_west:
  "df2_rhs scenario [''West''] = Inr west_rows \<and> df3_rhs west_rows [] = Inr west_rows"
  by code_simp

subsection \<open>From the filter to the export\<close>

text \<open>
  After line 84 \<^verbatim>\<open>df\<close> refers to the base dataset and \<^verbatim>\<open>filtered_df\<close> to the
  filtered view, and the two are one object exactly when all selections are empty.
\<close>

lemma filter_section_session:
  assumes u: "unique_index base"
  shows "\<exists>ss. filter_section base region state city = Inr ss
       \<and> objs (heap ss) (df_at ss) = base
       \<and> objs (heap ss) (filtered_df_at ss) = rows_where (matches region state city) base
       \<and> (filtered_df_at ss = df_at ss \<longleftrightarrow> region = [] \<and> state = [] \<and> city = [])"
proof -
  have b: "branch_rhs (select_branch region state city) base
             (rows_where (\<lambda>r. accepts region (Region r) \<and> accepts state (State r)) base)
             region state city
         = Inr (rows_where (matches region state city) base)"
    using u by (rule branch_value)
  have e: "rows_where (matches [] [] []) base = base"
    by (simp add: rows_where_all matches_def accepts_def)
  show ?thesis
    by (auto simp add: filter_section_def new_def empty_store_def df2_value u df3_of_base b e
          select_branch_All_empty)
qed

lemma in_columns_setitem:
  "n \<in> set (columns (setitem f name val)) \<longleftrightarrow> n = name \<or> n \<in> set (columns f)"
  by (auto simp: setitem_def)

text \<open>
  Lines 85 to 199 from a session: the export is reached when the columns are there and
  the libraries return, and it is \<^verbatim>\<open>df\<close> with the two columns when \<^verbatim>\<open>filtered_df\<close>
  is the same object, and \<^verbatim>\<open>df\<close> as it was when it is another one.
\<close>

lemma analysis_section_Inr:
  assumes "objs (heap ss) (df_at ss) = base" and "objs (heap ss) (filtered_df_at ss) = v"
    and "columns v = columns base"
  shows "analysis_section lib ss = Inr x \<longleftrightarrow>
      has_columns base chart_columns
      \<and> lib Top_charts base v
      \<and> lib Time_series_and_segments
           (if filtered_df_at ss = df_at ss then month_year_assigned v else base)
           (month_year_assigned v)
      \<and> lib Pivot_and_scatter
           (if filtered_df_at ss = df_at ss then month_assigned (month_year_assigned v) else base)
           (month_assigned (month_year_assigned v))
      \<and> x = to_csv (if filtered_df_at ss = df_at ss
                     then month_assigned (month_year_assigned v) else base)"
proof (cases "filtered_df_at ss = df_at ss")
  case True
  with assms have "v = base" by simp
  with True assms(1) show ?thesis
    by (auto simp add: analysis_section_def reading_def in_place_def month_year_assigned_def
          month_assigned_def in_columns_setitem has_columns_def chart_columns_def)
next
  case False
  with assms show ?thesis
    by (auto simp add: analysis_section_def reading_def in_place_def month_year_assigned_def
          month_assigned_def in_columns_setitem has_columns_def chart_columns_def)
qed

lemma dashboard_Inr:
  assumes u: "unique_index base"
  shows "dashboard lib base region state city = Inr x \<longleftrightarrow>
      reaches_export lib base region state city
      \<and> x = to_csv (if region = [] \<and> state = [] \<and> city = []
                     then month_assigned (month_year_assigned base) else base)"
proof -
  from filter_section_session [OF u, of region state city]
  obtain ss where ss: "filter_section base region state city = Inr ss"
      "objs (heap ss) (df_at ss) = base"
      "objs (heap ss) (filtered_df_at ss) = rows_where (matches region state city) base"
      "filtered_df_at ss = df_at ss \<longleftrightarrow> region = [] \<and> state = [] \<and> city = []"
    by blast
  have c: "columns (rows_where (matches region state city) base) = columns base"
    by (simp add: rows_where_def)
  have e: "rows_where (matches [] [] []) base = base"
    by (simp add: rows_where_all matches_def accepts_def)
  have "dashboard lib base region state city = analysis_section lib ss"
    by (simp add: dashboard_def ss(1))
  then show ?thesis
    using ss(4) e
    by (auto simp add: analysis_section_Inr [OF ss(2) ss(3) c] reaches_export_def Let_def)
qed

subsection \<open>The whole script on the concrete dataset\<close>

lemma dashboard_unfiltered:
  "dashboard obliging scenario [] [] []
     = Inr (header @ [''month_year'', ''month''],
            [ny_row\<lparr>other := other ny_row
               @ [(''month_year'', Period 2017 March), (''month'', Str ''March'')]\<rparr>,
             la_row\<lparr>other := other la_row
               @ [(''month_year'', Period 2017 April), (''month'', Str ''April'')]\<rparr>,
             sf_row\<lparr>other := other sf_row
               @ [(''month_year'', Period 2017 November), (''month'', Str ''November'')]\<rparr>])"
  by code_simp

lemma dashboard_ca:
  "dashboard obliging scenario [] [''CA''] [] = Inr (header, [ny_row, la_row, sf_row])"
  by code_simp

text \<open>Without the column Category the script stops at line 88, whatever the selections.\<close>

lemma dashboard_without_category:
  "dashboard obliging scenario_without_category [] [] [] = Inl Missing_column
   \<and> dashboard obliging scenario_without_category [] [''CA''] [] = Inl Missing_column"
  by code_simp

text \<open>A library that raises on a small view stops the script before the export.\<close>

lemma dashboard_fragile:
  "dashboard fragile scenario [''West''] [] [''SF''] = Inl Library_error
   \<and> dashboard fragile scenario [''West''] [] [] = Inr (header, [ny_row, la_row, sf_row])"
  by code_simp

lemma reaches_export_scenario:
  "reaches_export obliging scenario [] [] [] \<and> reaches_export obliging scenario [] [''CA''] []"
  by code_simp


subsection \<open>The claims\<close>

text \<open>
  C1. For every dataset with unique labels and every three selections, the
  filter-resolution block ends with \<^verbatim>\<open>filtered_df\<close> holding exactly the rows of the
  date-filtered dataset, in their order, that satisfy the membership test of each
  non-empty selection: with all three selections empty the dataset itself, and otherwise
  a row is in the result if and only if it is a row of the dataset with Region in the
  region selection whenever that is non-empty, State in the state selection whenever that is
  non-empty, and City in the city selection whenever that is non-empty.
\<close>

theorem resolve_table:
  assumes "unique_index base"
  shows "resolve base region state city = Inr (rows_where (matches region state city) base)
       \<and> resolve base [] [] [] = Inr base
       \<and> (\<forall>i r. (i, r) \<in> set (body (rows_where (matches region state city) base)) \<longleftrightarrow>
            (i, r) \<in> set (body base)
            \<and> (region \<noteq> [] \<longrightarrow> Region r \<in> set region)
            \<and> (state \<noteq> [] \<longrightarrow> State r \<in> set state)
            \<and> (city \<noteq> [] \<longrightarrow> City r \<in> set city))"
proof -
  have "resolve base [] [] [] = Inr (rows_where (matches [] [] []) base)"
    using assms by (rule resolve_rows_where)
  then have "resolve base [] [] [] = Inr base"
    by (simp add: rows_where_all matches_def accepts_def)
  then show ?thesis
    using assms by (auto simp: resolve_rows_where body_rows_where matches_def accepts_def)
qed

theorem resolve_table_witness:
  "unique_index scenario
   \<and> resolve scenario [''West''] [''CA''] [''LA'', ''NYC'']
       = Inr \<lparr>columns = header, body = [(2, la_row)]\<rparr>
   \<and> resolve scenario [] [] [] = Inr scenario
   \<and> (2, la_row) \<in> set (body scenario)
   \<and> Region la_row \<in> set [''West''] \<and> State la_row \<in> set [''CA'']
   \<and> City la_row \<in> set [''LA'', ''NYC'']"
  using resolve_table [OF unique_index_scenario, of "[''West'']" "[''CA'']" "[''LA'', ''NYC'']"]
  by (simp add: unique_index_scenario resolve_west_ca_la_nyc)
    (simp add: scenario_def la_row_def)

text \<open>
  C2. For every dataset with unique labels and all selections, the block returns a
  result, and every row of it satisfies the conjunction of the membership constraints of
  all non-empty selections: Region in the region selection when that is non-empty (so no
  row with a Region outside a non-empty region selection appears, whatever the state and
  city selections are), State in the state selection when that is non-empty, and City in
  the city selection when that is non-empty.
\<close>

theorem resolve_conjunction:
  assumes "unique_index base"
  shows "\<exists>out. resolve base region state city = Inr out
       \<and> (\<forall>(i, r) \<in> set (body out).
            (region \<noteq> [] \<longrightarrow> Region r \<in> set region)
            \<and> (state \<noteq> [] \<longrightarrow> State r \<in> set state)
            \<and> (city \<noteq> [] \<longrightarrow> City r \<in> set city))"
  using assms by (auto simp: resolve_rows_where body_rows_where matches_def accepts_def)

theorem resolve_conjunction_witness:
  "unique_index scenario
   \<and> resolve scenario [''West''] [''CA''] [''SF''] = Inr \<lparr>columns = header, body = [(3, sf_row)]\<rparr>
   \<and> [''West''] \<noteq> [] \<and> Region sf_row \<in> set [''West'']
   \<and> [''CA''] \<noteq> [] \<and> State sf_row \<in> set [''CA'']
   \<and> [''SF''] \<noteq> [] \<and> City sf_row \<in> set [''SF'']"
  using resolve_conjunction [OF unique_index_scenario, of "[''West'']" "[''CA'']" "[''SF'']"]
  by (simp add: unique_index_scenario resolve_west_ca_sf)

text \<open>
  C3. For every dataset, with all three selections empty the block returns the dataset
  unchanged: the same columns and the same rows, in the same order.
\<close>

theorem resolve_identity: "resolve base [] [] [] = Inr base"
  by (simp add: resolve_value df2_rhs_def df3_rhs_def copy_def select_branch_def)

text \<open>
  C4. The filter resolution is idempotent: for every dataset with unique labels and all
  selections, the block returns a result, and the block applied to that result with the
  same selections returns it again.
\<close>

theorem resolve_idempotent:
  assumes "unique_index base"
  shows "\<exists>out. resolve base region state city = Inr out \<and> resolve out region state city = Inr out"
  using assms by (simp add: resolve_rows_where unique_index_rows_where rows_where_twice)

theorem resolve_idempotent_witness:
  "unique_index scenario
   \<and> resolve scenario [''West''] [''CA''] [''LA'', ''NYC'']
       = Inr \<lparr>columns = header, body = [(2, la_row)]\<rparr>
   \<and> resolve \<lparr>columns = header, body = [(2, la_row)]\<rparr> [''West''] [''CA''] [''LA'', ''NYC'']
       = Inr \<lparr>columns = header, body = [(2, la_row)]\<rparr>"
  using resolve_idempotent [OF unique_index_scenario, of "[''West'']" "[''CA'']" "[''LA'', ''NYC'']"]
  by (simp add: unique_index_scenario resolve_west_ca_la_nyc)

text \<open>
  C5. For every dataset with unique labels, the empty one included, and for all
  selections, the block never raises: it returns a dataframe with the columns of the
  dataset, possibly without rows, and without rows when the dataset has none.
\<close>

theorem resolve_total:
  assumes "unique_index base"
  shows "\<exists>out. resolve base region state city = Inr out
       \<and> columns out = columns base
       \<and> (body base = [] \<longrightarrow> body out = [])"
  using assms by (simp add: resolve_rows_where rows_where_def)

theorem resolve_total_witness:
  "unique_index no_rows \<and> body no_rows = []
   \<and> resolve no_rows [''West''] [''CA''] [''SF''] = Inr no_rows
   \<and> unique_index scenario
   \<and> resolve scenario [''East''] [] [''SF''] = Inr no_rows"
  using resolve_total [OF unique_index_no_rows, of "[''West'']" "[''CA'']" "[''SF'']"]
        resolve_total [OF unique_index_scenario, of "[''East'']" "[]" "[''SF'']"]
  by (simp add: unique_index_no_rows unique_index_scenario resolve_no_rows resolve_east_sf)
    (simp add: no_rows_def)

text \<open>
  C6. For every dataset with unique labels and every region selection, the option list
  offered for the State level is a list without repetitions of exactly the State values
  that occur among the rows with Region in the region selection, or among all rows when
  the region selection is empty. With the region selection West it holds only states
  of rows whose Region is West.
\<close>

theorem availableStates_distinct_states:
  assumes "unique_index base"
  shows "\<exists>opts. availableStates base region = Inr opts \<and> distinct opts
       \<and> set opts
           = {State r | i r. (i, r) \<in> set (body base) \<and> (region = [] \<or> Region r \<in> set region)}"
  using assms
  by (simp add: availableStates_value distinct_unique set_unique values_col_rows_where accepts_def)

theorem availableStates_distinct_states_witness:
  "unique_index scenario \<and> availableStates scenario [''West''] = Inr [''CA'']
   \<and> {State r | i r. (i, r) \<in> set (body scenario) \<and> ([''West''] = [] \<or> Region r \<in> set [''West''])}
       = {''CA''}"
  using availableStates_distinct_states [OF unique_index_scenario, of "[''West'']"]
  by (simp add: unique_index_scenario availableStates_west)

text \<open>
  C7. Cascading invariant: for every dataset with unique labels, both option lists are
  computed, every state offered for the current region selection gives a non-empty
  result when it is selected alone at the State level with no city selected, and every
  city offered for the current region and state selections gives a non-empty result when
  it is selected alone at the City level.
\<close>

theorem cascading_options_nonempty:
  assumes "unique_index base"
  shows "\<exists>states cities.
           availableStates base region = Inr states
         \<and> availableCities base region state = Inr cities
         \<and> (\<forall>s \<in> set states. \<exists>out. resolve base region [s] [] = Inr out \<and> body out \<noteq> [])
         \<and> (\<forall>c \<in> set cities. \<exists>out. resolve base region state [c] = Inr out \<and> body out \<noteq> [])"
proof -
  let ?states = "unique (col State (rows_where (\<lambda>r. accepts region (Region r)) base))"
  let ?cities = "unique (col City
      (rows_where (\<lambda>r. accepts region (Region r) \<and> accepts state (State r)) base))"
  have "body (rows_where (matches region [s] []) base) \<noteq> []" if "s \<in> set ?states" for s
  proof -
    from that obtain i r
      where "(i, r) \<in> set (body base)" "accepts region (Region r)" "State r = s"
      by (auto simp: set_unique values_col_rows_where)
    then have "(i, r) \<in> set (body (rows_where (matches region [s] []) base))"
      by (simp add: body_rows_where matches_def accepts_def)
    then show ?thesis by auto
  qed
  moreover
  have "body (rows_where (matches region state [c]) base) \<noteq> []" if "c \<in> set ?cities" for c
  proof -
    from that obtain i r
      where "(i, r) \<in> set (body base)" "accepts region (Region r)"
        "accepts state (State r)" "City r = c"
      by (auto simp: set_unique values_col_rows_where)
    then have "(i, r) \<in> set (body (rows_where (matches region state [c]) base))"
      by (simp add: body_rows_where matches_def accepts_def)
    then show ?thesis by auto
  qed
  ultimately show ?thesis
    using assms by (simp add: availableStates_value availableCities_value resolve_rows_where)
qed

theorem cascading_options_nonempty_witness:
  "unique_index scenario
   \<and> availableStates scenario [''West''] = Inr [''CA'']
   \<and> availableCities scenario [''West''] [''CA''] = Inr [''LA'', ''SF'']
   \<and> resolve scenario [''West''] [''CA''] [] = Inr west_rows \<and> body west_rows \<noteq> []
   \<and> resolve scenario [''West''] [''CA''] [''LA''] = Inr \<lparr>columns = header, body = [(2, la_row)]\<rparr>
   \<and> resolve scenario [''West''] [''CA''] [''SF''] = Inr \<lparr>columns = header, body = [(3, sf_row)]\<rparr>"
  using cascading_options_nonempty [OF unique_index_scenario, of "[''West'']" "[''CA'']"]
  by (simp add: unique_index_scenario availableStates_west availableCities_west_ca
        resolve_west_ca resolve_west_ca_la resolve_west_ca_sf)

text \<open>
  C8. The final \<^verbatim>\<open>else\<close> of the chain is unreachable: for every combination of empty
  and non-empty selections one of the seven alternatives before it applies, and with all
  three selections non-empty it is the alternative \<^verbatim>\<open>elif state and city\<close>.
\<close>

theorem final_else_unreachable:
  "select_branch region state city \<noteq> Final_else
   \<and> (region \<noteq> [] \<and> state \<noteq> [] \<and> city \<noteq> [] \<longrightarrow> select_branch region state city = State_and_city)"
  by (simp add: select_branch_def)

theorem final_else_unreachable_witness:
  "[''West''] \<noteq> [] \<and> [''CA''] \<noteq> [] \<and> [''SF''] \<noteq> []
   \<and> select_branch [''West''] [''CA''] [''SF''] = State_and_city
   \<and> select_branch [''West''] [''CA''] [''SF''] \<noteq> Final_else"
  using final_else_unreachable [of "[''West'']" "[''CA'']" "[''SF'']"]
  by simp

text \<open>
  C9. In the alternatives \<^verbatim>\<open>elif state and city\<close> and \<^verbatim>\<open>elif region and city\<close> the
  mask taken over the pre-cascade dataframe is redundant. On a dataset with unique
  labels, with \<^verbatim>\<open>df2\<close> and \<^verbatim>\<open>df3\<close> as lines 58 and 62 compute them, whenever the
  chain selects one of the two alternatives its expression returns the rows of
  \<^verbatim>\<open>df3\<close> whose City is in the city selection: the same result as indexing
  \<^verbatim>\<open>df3\<close> with the city mask alone, and the same as the purely cascaded expression
  that takes the State mask (or the Region mask) over \<^verbatim>\<open>df3\<close> as well.
\<close>

theorem mixed_masks_redundant:
  assumes "unique_index base" and "df2_rhs base region = Inr v2" and "df3_rhs v2 state = Inr v3"
  shows "(select_branch region state city = State_and_city \<longrightarrow>
            branch_rhs State_and_city base v3 region state city
              = Inr (rows_where (\<lambda>r. City r \<in> set city) v3)
          \<and> getitem_bool v3 (isin (col City v3) city)
              = Inr (rows_where (\<lambda>r. City r \<in> set city) v3)
          \<and> getitem_bool v3 (series_and (isin (col State v3) state) (isin (col City v3) city))
              = Inr (rows_where (\<lambda>r. City r \<in> set city) v3))
       \<and> (select_branch region state city = Region_and_city \<longrightarrow>
            branch_rhs Region_and_city base v3 region state city
              = Inr (rows_where (\<lambda>r. City r \<in> set city) v3)
          \<and> getitem_bool v3 (isin (col City v3) city)
              = Inr (rows_where (\<lambda>r. City r \<in> set city) v3)
          \<and> getitem_bool v3 (series_and (isin (col Region v3) region) (isin (col City v3) city))
              = Inr (rows_where (\<lambda>r. City r \<in> set city) v3))"
proof -
  let ?Q = "\<lambda>r. accepts region (Region r) \<and> accepts state (State r)"
  have v2: "v2 = rows_where (\<lambda>r. accepts region (Region r)) base"
    using assms(1,2) by (simp add: df2_value)
  have v3: "v3 = rows_where ?Q base"
    using assms(1,3) by (simp add: v2 df3_of_base)
  have u3: "unique_index (rows_where ?Q base)"
    using assms(1) by (rule unique_index_rows_where)
  have city: "getitem_bool v3 (isin (col City v3) city)
      = Inr (rows_where (\<lambda>r. City r \<in> set city) v3)"
    unfolding v3 using u3 by (rule getitem_isin)
  have sc: "branch_rhs State_and_city base v3 region state city
              = Inr (rows_where (\<lambda>r. City r \<in> set city) v3)
          \<and> getitem_bool v3 (series_and (isin (col State v3) state) (isin (col City v3) city))
              = Inr (rows_where (\<lambda>r. City r \<in> set city) v3)"
    if "state \<noteq> []"
    using that assms(1) u3 unfolding v3
    by (auto simp: getitem_mixed getitem_and rows_where_twice accepts_def intro!: rows_where_cong)
  have rc: "branch_rhs Region_and_city base v3 region state city
              = Inr (rows_where (\<lambda>r. City r \<in> set city) v3)
          \<and> getitem_bool v3 (series_and (isin (col Region v3) region) (isin (col City v3) city))
              = Inr (rows_where (\<lambda>r. City r \<in> set city) v3)"
    if "region \<noteq> []"
    using that assms(1) u3 unfolding v3
    by (auto simp: getitem_mixed getitem_and rows_where_twice accepts_def intro!: rows_where_cong)
  have "state \<noteq> []" if "select_branch region state city = State_and_city"
    using that by (simp add: select_branch_def split: if_splits)
  moreover have "region \<noteq> []" if "select_branch region state city = Region_and_city"
    using that by (simp add: select_branch_def split: if_splits)
  ultimately show ?thesis using city sc rc by blast
qed

theorem mixed_masks_redundant_witness:
  "unique_index scenario
   \<and> (df2_rhs scenario [] = Inr scenario \<and> df3_rhs scenario [''CA''] = Inr west_rows
      \<and> select_branch [] [''CA''] [''SF''] = State_and_city
      \<and> branch_rhs State_and_city scenario west_rows [] [''CA''] [''SF'']
          = Inr \<lparr>columns = header, body = [(3, sf_row)]\<rparr>
      \<and> getitem_bool west_rows (isin (col City west_rows) [''SF''])
          = Inr \<lparr>columns = header, body = [(3, sf_row)]\<rparr>)
   \<and> (df2_rhs scenario [''West''] = Inr west_rows \<and> df3_rhs west_rows [] = Inr west_rows
      \<and> select_branch [''West''] [] [''SF''] = Region_and_city
      \<and> branch_rhs Region_and_city scenario west_rows [''West''] [] [''SF'']
          = Inr \<lparr>columns = header, body = [(3, sf_row)]\<rparr>
      \<and> getitem_bool west_rows (isin (col City west_rows) [''SF''])
          = Inr \<lparr>columns = header, body = [(3, sf_row)]\<rparr>)"
proof -
  have sel: "select_branch [] [''CA''] [''SF''] = State_and_city"
    "select_branch [''West''] [] [''SF''] = Region_and_city"
    by (simp_all add: select_branch_def)
  have sf: "rows_where (\<lambda>r. City r = ''SF'') west_rows
      = \<lparr>columns = header, body = [(3, sf_row)]\<rparr>"
    by (simp add: rows_where_def west_rows_def rows_defs)
  show ?thesis
    using mixed_masks_redundant [OF unique_index_scenario conjunct1 [OF cascade_ca]
            conjunct2 [OF cascade_ca], of "[''SF'']"]
          mixed_masks_redundant [OF unique_index_scenario conjunct1 [OF cascade_west]
            conjunct2 [OF cascade_west], of "[''SF'']"]
    by (simp add: unique_index_scenario cascade_ca cascade_west sel sf)
qed

text \<open>
  C10. The filtered view is the object of the base dataset itself when and only when all
  three selections are empty; otherwise it is a new object. The script reaches the export
  of line 199 exactly when the dataset has the columns the statements of lines 85 to 198
  name and the library calls of those statements return. Whenever it reaches it, the
  export is the base dataset with the columns month_year and month added when all
  selections are empty, and the base dataset unchanged when any selection is non-empty.
  So for a dataset that has no column month_year of its own, the header of every export
  has month_year if and only if all three selections are empty.
\<close>

theorem unfiltered_view_is_base:
  assumes u: "unique_index base"
  shows "(\<exists>ss. filter_section base region state city = Inr ss
            \<and> (filtered_df_at ss = df_at ss \<longleftrightarrow> region = [] \<and> state = [] \<and> city = []))
       \<and> ((\<exists>x. dashboard lib base region state city = Inr x)
            \<longleftrightarrow> reaches_export lib base region state city)
       \<and> (\<forall>x. dashboard lib base region state city = Inr x \<longrightarrow>
              x = to_csv (if region = [] \<and> state = [] \<and> city = []
                          then month_assigned (month_year_assigned base) else base))
       \<and> (''month_year'' \<notin> set (columns base) \<longrightarrow>
            (\<forall>hdr rows. dashboard lib base region state city = Inr (hdr, rows) \<longrightarrow>
               (''month_year'' \<in> set hdr \<longleftrightarrow> region = [] \<and> state = [] \<and> city = [])))"
proof -
  let ?export = "to_csv (if region = [] \<and> state = [] \<and> city = []
                          then month_assigned (month_year_assigned base) else base)"
  have fs: "\<exists>ss. filter_section base region state city = Inr ss
            \<and> (filtered_df_at ss = df_at ss \<longleftrightarrow> region = [] \<and> state = [] \<and> city = [])"
    using filter_section_session [OF u, of region state city] by blast
  have d: "dashboard lib base region state city = Inr x
      \<longleftrightarrow> reaches_export lib base region state city \<and> x = ?export" for x
    using u by (rule dashboard_Inr)
  have h: "''month_year'' \<in> set (fst ?export) \<longleftrightarrow> region = [] \<and> state = [] \<and> city = []"
    if "''month_year'' \<notin> set (columns base)"
    using that
    by (simp add: to_csv_def month_assigned_def month_year_assigned_def in_columns_setitem)
  have "''month_year'' \<in> set hdr \<longleftrightarrow> region = [] \<and> state = [] \<and> city = []"
    if "''month_year'' \<notin> set (columns base)"
      and "dashboard lib base region state city = Inr (hdr, rows)" for hdr rows
  proof -
    from that(2) have "(hdr, rows) = ?export" by (simp add: d)
    then have "hdr = fst ?export" by (metis fst_conv)
    with h [OF that(1)] show ?thesis by simp
  qed
  with fs d show ?thesis by blast
qed

theorem unfiltered_view_is_base_witness:
  "unique_index scenario \<and> ''month_year'' \<notin> set (columns scenario)
   \<and> reaches_export obliging scenario [] [] []
   \<and> dashboard obliging scenario [] [] []
     = Inr (header @ [''month_year'', ''month''],
            [ny_row\<lparr>other := other ny_row
               @ [(''month_year'', Period 2017 March), (''month'', Str ''March'')]\<rparr>,
             la_row\<lparr>other := other la_row
               @ [(''month_year'', Period 2017 April), (''month'', Str ''April'')]\<rparr>,
             sf_row\<lparr>other := other sf_row
               @ [(''month_year'', Period 2017 November), (''month'', Str ''November'')]\<rparr>])
   \<and> ''month_year'' \<in> set (header @ [''month_year'', ''month''])
   \<and> reaches_export obliging scenario [] [''CA''] []
   \<and> dashboard obliging scenario [] [''CA''] [] = Inr (header, [ny_row, la_row, sf_row])
   \<and> ''month_year'' \<notin> set header"
  using unfiltered_view_is_base [OF unique_index_scenario, of "[]" "[]" "[]" obliging]
        unfiltered_view_is_base [OF unique_index_scenario, of "[]" "[''CA'']" "[]" obliging]
  by (simp add: unique_index_scenario dashboard_unfiltered dashboard_ca reaches_export_scenario)
    (simp add: scenario_def header_def)


end
